theory Spec2Isabelle
  imports Complex_Main "HOL-Library.Multiset"
begin

section \<open>Data model of smartthings\_exporter.go\<close>

text \<open>
  Go's \<^verbatim>\<open>float64\<close> is the binary64 format of IEEE 754. A finite value
  \<open>Finite64 s e f\<close> has the sign \<open>s\<close> (\<open>True\<close> for negative), the biased exponent
  \<open>e < 2047\<close> and the fraction \<open>f < 2 ^ 52\<close>; it denotes \<open>f * 2 ^ - 1074\<close> when
  \<open>e = 0\<close> (zero and the subnormal numbers) and \<open>(2 ^ 52 + f) * 2 ^ (e - 1075)\<close>
  otherwise. \<open>Inf64 s\<close> is the infinity of sign \<open>s\<close>. The NaN values are not told apart:
  \<open>NaN64\<close> stands for all of them.
\<close>

datatype float64 = Finite64 bool nat nat | Inf64 bool | NaN64

fun wf64 :: "float64 \<Rightarrow> bool" where
  "wf64 (Finite64 s e f) = (e < 2047 \<and> f < 2 ^ 52)"
| "wf64 x = True"

text \<open>The constants \<^verbatim>\<open>0.0\<close> and \<^verbatim>\<open>1.0\<close>.\<close>

instantiation float64 :: "{zero, one}"
begin

definition zero_float64 :: float64 where
  "zero_float64 = Finite64 False 0 0"

definition one_float64 :: float64 where
  "one_float64 = Finite64 False 1023 0"

instance ..

end

definition mantissa :: "nat \<Rightarrow> nat \<Rightarrow> nat" where
  "mantissa e f = (if e = 0 then f else 2 ^ 52 + f)"

definition exponent :: "nat \<Rightarrow> int" where
  "exponent e = (if e = 0 then - 1074 else int e - 1075)"

text \<open>The real number a finite value denotes.\<close>

fun realOf :: "float64 \<Rightarrow> real option" where
  "realOf (Finite64 s e f) =
     Some ((if s then - 1 else 1) * real (mantissa e f) *
           (if 0 \<le> exponent e then 2 ^ nat (exponent e) else 1 / 2 ^ nat (- exponent e)))"
| "realOf x = None"

text \<open>The number of binary digits of a natural number.\<close>

fun bitlen :: "nat \<Rightarrow> nat" where
  "bitlen n = (if n = 0 then 0 else Suc (bitlen (n div 2)))"

declare bitlen.simps [simp del]

text \<open>\<open>M / 2 ^ k\<close> rounded to the nearest natural number, a tie to the even one.\<close>

definition roundHalfEven :: "nat \<Rightarrow> nat \<Rightarrow> nat" where
  "roundHalfEven M k =
     (let q = M div 2 ^ k; r = M mod 2 ^ k
      in if 2 ^ k < 2 * r \<or> (2 * r = 2 ^ k \<and> odd q) then q + 1 else q)"

text \<open>
  The float64 nearest to \<open>M * 2 ^ Q\<close> with the sign \<open>s\<close>, a tie going to the even fraction
  (the rounding of Go's arithmetic), the infinity when the result is beyond the largest
  finite value. \<open>q\<close> is the exponent of the last binary digit that the format keeps for a
  number of this size, \<open>m\<close> the number in units of \<open>2 ^ q\<close>.
\<close>

definition round64 :: "bool \<Rightarrow> nat \<Rightarrow> int \<Rightarrow> float64" where
  "round64 s M Q =
     (if M = 0 then Finite64 s 0 0
      else
        let E = int (bitlen M) - 1 + Q;
            q = max (E - 52) (- 1074);
            m = (if q \<le> Q then M * 2 ^ nat (Q - q) else roundHalfEven M (nat (q - Q)))
        in if m < 2 ^ 52 then Finite64 s 0 m
           else if m < 2 ^ 53 then
             (if q + 1075 < 2047 then Finite64 s (nat (q + 1075)) (m - 2 ^ 52) else Inf64 s)
           else
             (if q + 1076 < 2047 then Finite64 s (nat (q + 1076)) 0 else Inf64 s))"

text \<open>
  The product \<^verbatim>\<open>x * y\<close> of two float64 values: the exact product of two finite values,
  rounded; NaN for a NaN operand and for zero times infinity.
\<close>

fun fmul :: "float64 \<Rightarrow> float64 \<Rightarrow> float64" where
  "fmul NaN64 y = NaN64"
| "fmul x NaN64 = NaN64"
| "fmul (Inf64 s) (Inf64 t) = Inf64 (s \<noteq> t)"
| "fmul (Inf64 s) (Finite64 t e f) = (if e = 0 \<and> f = 0 then NaN64 else Inf64 (s \<noteq> t))"
| "fmul (Finite64 s e f) (Inf64 t) = (if e = 0 \<and> f = 0 then NaN64 else Inf64 (s \<noteq> t))"
| "fmul (Finite64 s e f) (Finite64 t e' f') =
     round64 (s \<noteq> t) (mantissa e f * mantissa e' f') (exponent e + exponent e')"

text \<open>An integer constant of the source, converted to float64.\<close>

definition float64_of_nat :: "nat \<Rightarrow> float64" where
  "float64_of_nat n = round64 False n 0"

text \<open>
  A device attribute has the Go type \<^verbatim>\<open>interface{}\<close>. After JSON decoding such a value
  is nil, a string, a float64, a bool, a slice or a map; the value mappers tell these
  apart with the type assertions \<^verbatim>\<open>v.(string)\<close> and \<^verbatim>\<open>v.(float64)\<close>.
\<close>

datatype iface =
    INil
  | IString string
  | IFloat64 float64
  | IBool bool
  | ISlice "iface list"
  | IMap "(string \<times> iface) list"

text \<open>
  The errors built by \<^verbatim>\<open>fmt.Errorf\<close>: one constructor per format string, holding the
  arguments that are formatted into the message.
  \<^item> \<open>NonStringArgument v\<close>: \<^verbatim>\<open>"invalid non-string argument %v"\<close>
  \<^item> \<open>InvalidOption val o0 o1\<close>: \<^verbatim>\<open>"invalid option %q. Expected %q or %q"\<close>
  \<^item> \<open>NonFloatArgument v\<close>: \<^verbatim>\<open>"invalid non floating-point argument %v"\<close>
\<close>

datatype error =
    NonStringArgument iface
  | InvalidOption string string string
  | NonFloatArgument iface

text \<open>A Go result \<^verbatim>\<open>(float64, error)\<close>; the error \<open>None\<close> is \<^verbatim>\<open>nil\<close>.\<close>

type_synonym result = "float64 \<times> error option"

text \<open>\<^verbatim>\<open>prometheus.Desc\<close> as built by \<^verbatim>\<open>prometheus.NewDesc\<close>.\<close>

record desc =
  fqName :: string
  helpText :: string
  variableLabels :: "string list"
  constLabels :: "(string \<times> string) list"

definition NewDesc :: "string \<Rightarrow> string \<Rightarrow> string list \<Rightarrow> (string \<times> string) list \<Rightarrow> desc" where
  "NewDesc fq h vl cl = \<lparr>fqName = fq, helpText = h, variableLabels = vl, constLabels = cl\<rparr>"

text \<open>
  \<^verbatim>\<open>prometheus.BuildFQName\<close> joins its non-empty parts with an underscore and gives the
  empty string when the name is empty.
\<close>

definition BuildFQName :: "string \<Rightarrow> string \<Rightarrow> string \<Rightarrow> string" where
  "BuildFQName ns subsystem name =
     (if name = '''' then ''''
      else if ns \<noteq> '''' \<and> subsystem \<noteq> '''' then ns @ ''_'' @ subsystem @ ''_'' @ name
      else if ns \<noteq> '''' then ns @ ''_'' @ name
      else if subsystem \<noteq> '''' then subsystem @ ''_'' @ name
      else name)"

definition namespace :: string where
  "namespace = ''smartthings''"

text \<open>The struct \<^verbatim>\<open>metric\<close>.\<close>

record metric =
  description :: desc
  valueMapper :: "iface \<Rightarrow> result"

text \<open>
  The option slices. Each holds exactly two strings and is only ever read at the indices
  0 and 1, so it is a pair here: \<open>fst\<close> is \<^verbatim>\<open>options[0]\<close>, \<open>snd\<close> is \<^verbatim>\<open>options[1]\<close>.
\<close>

type_synonym options = "string \<times> string"

definition valOpenClosed :: options where
  "valOpenClosed = (''open'', ''closed'')"

definition valLockedUnlocked :: options where
  "valLockedUnlocked = (''locked'', ''unlocked'')"

definition valInactiveActive :: options where
  "valInactiveActive = (''inactive'', ''active'')"

definition valAbsentPresent :: options where
  "valAbsentPresent = (''not present'', ''present'')"

definition valOffOn :: options where
  "valOffOn = (''off'', ''on'')"

section \<open>The value mappers\<close>

text \<open>\<^verbatim>\<open>valueClear\<close>: a string is expected; 0 for "clear", 1 for any other string.\<close>

fun valueClear :: "iface \<Rightarrow> result" where
  "valueClear (IString val) = (if val = ''clear'' then (0, None) else (1, None))"
| "valueClear v = (0, Some (NonStringArgument v))"

text \<open>
  \<^verbatim>\<open>valueOneOf\<close>: 0 when the string is the first option, 1 when it is the second, an
  error otherwise.
\<close>

fun valueOneOf :: "iface \<Rightarrow> options \<Rightarrow> result" where
  "valueOneOf (IString val) opts =
     (if val = fst opts then (0, None)
      else if val = snd opts then (1, None)
      else (0, Some (InvalidOption val (fst opts) (snd opts))))"
| "valueOneOf v opts = (0, Some (NonStringArgument v))"

text \<open>
  \<^verbatim>\<open>valueFloat\<close>: the empty string gives 0; otherwise the argument has to be a float64
  and is returned as it is.
\<close>

fun valueFloat :: "iface \<Rightarrow> result" where
  "valueFloat (IString stringVal) =
     (if stringVal = '''' then (0, None)
      else (0, Some (NonFloatArgument (IString stringVal))))"
| "valueFloat (IFloat64 val) = (val, None)"
| "valueFloat v = (0, Some (NonFloatArgument v))"

text \<open>The closure stored for \<^verbatim>\<open>energy\<close>: kWh to joules.\<close>

definition energyMapper :: "iface \<Rightarrow> result" where
  "energyMapper i =
     (case valueFloat i of
        (v, Some err) \<Rightarrow> (0, Some err)
      | (v, None) \<Rightarrow> (fmul v (float64_of_nat 3600000), None))"

section \<open>The two tables\<close>

text \<open>
  Go map literals, kept as association lists in the order of the source; a lookup is
  \<open>map_of\<close>. Indexing \<^verbatim>\<open>map[string]string\<close> with a missing key gives the empty
  string, indexing \<^verbatim>\<open>map[string]*metric\<close> with a missing key gives nil (\<open>None\<close>).
\<close>

definition metricsToDrop :: "(string \<times> string) list" where
  "metricsToDrop =
   [(''DeviceWatch-DeviceStatus'', ''stuff here''),
    (''DeviceWatch-Enroll'', ''stuff here''),
    (''numberOfButtons'', ''stuff here''),
    (''color'', ''stuff here''),
    (''colorName'', ''stuff here''),
    (''button'', ''stuff here''),
    (''indicatorStatus'', ''stuff here''),
    (''supportedButtonValues'', ''stuff here''),
    (''bulbTemp'', ''stuff here''),
    (''status'', ''stuff here''),
    (''threeAxis'', ''stuff here''),
    (''acceleration'', ''stuff here''),
    (''door'', ''stuff here''),
    (''curZoneIsCycling'', ''stuff here''),
    (''curZoneCycleCount'', ''stuff here''),
    (''controllerOn'', ''stuff here''),
    (''rainDelay'', ''stuff here''),
    (''curZoneNumber'', ''stuff here''),
    (''curZoneWaterTime'', ''stuff here''),
    (''rainDelayStr'', ''stuff here''),
    (''hardwareModel'', ''stuff here''),
    (''hardwareDesc'', ''stuff here''),
    (''activeZoneCnt'', ''stuff here''),
    (''curZoneRunStatus'', ''stuff here''),
    (''standbyMode'', ''stuff here''),
    (''curZoneName'', ''stuff here''),
    (''curZoneDuration'', ''stuff here''),
    (''curZoneStartDate'', ''stuff here''),
    (''zoneSquareFeet'', ''stuff here''),
    (''efficiency'', ''stuff here''),
    (''indicashadeNametorStatus'', ''stuff here''),
    (''zoneName'', ''stuff here''),
    (''saturatedDepthOfWater'', ''stuff here''),
    (''zoneNumber'', ''stuff here''),
    (''watering'', ''stuff here''),
    (''zoneTotalDuration'', ''stuff here''),
    (''rootZoneDepth'', ''stuff here''),
    (''zoneWaterTime'', ''stuff here''),
    (''depthOfWater'', ''stuff here''),
    (''zoneElapsed'', ''stuff here''),
    (''slopeName'', ''stuff here''),
    (''cropName'', ''stuff here''),
    (''availableWater'', ''stuff here''),
    (''nozzleName'', ''stuff here''),
    (''maxRuntime'', ''stuff here''),
    (''zoneDuration'', ''stuff here''),
    (''zoneStartDate'', ''stuff here''),
    (''zoneCycleCount'', ''stuff here''),
    (''inStandby'', ''stuff here''),
    (''lastUpdatedDt'', ''stuff here''),
    (''scheduleType'', ''stuff here''),
    (''shadeName'', ''stuff here''),
    (''valve'', ''stuff here''),
    (''soilName'', ''stuff here''),
    (''image'', ''stuff here''),
    (''statusMessage'', ''stuff here''),
    (''mute'', ''stuff here''),
    (''hubactionMode'', ''stuff here''),
    (''switch2'', ''stuff here''),
    (''switch3'', ''stuff here''),
    (''switch4'', ''stuff here''),
    (''switch5'', ''stuff here''),
    (''switch6'', ''stuff here''),
    (''captureTime'', ''stuff here''),
    (''camera'', ''stuff here''),
    (''settings'', ''stuff here''),
    (''stream'', ''stuff here''),
    (''clip'', ''stuff here''),
    (''nightVision'', ''stuff here''),
    (''powerManagement'', ''stuff here''),
    (''desiredCameraState'', ''stuff here''),
    (''ruleId'', ''stuff here''),
    (''sound'', ''stuff here''),
    (''invertImage'', ''stuff here''),
    (''offline'', ''stuff here''),
    (''rssi'', ''stuff here''),
    (''active'', ''stuff here''),
    (''timeLastRefresh'', ''stuff here''),
    (''lqi'', ''stuff here''),
    (''clipStatus'', ''stuff here''),
    (''occupancy'', ''stuff here''),
    (''occupancyIconURL'', ''stuff here''),
    (''countdown'', ''stuff here''),
    (''batteryStatus'', ''stuff here''),
    (''tamper'', ''stuff here''),
    (''powerSource'', ''stuff here'')]"

text \<open>One registry entry: every description has the labels \<^verbatim>\<open>id\<close> and \<^verbatim>\<open>name\<close>.\<close>

definition mkDesc :: "string \<Rightarrow> string \<Rightarrow> desc" where
  "mkDesc name h = NewDesc (BuildFQName namespace '''' name) h [''id'', ''name''] []"

definition mkMetric :: "string \<Rightarrow> string \<Rightarrow> (iface \<Rightarrow> result) \<Rightarrow> metric" where
  "mkMetric name h f = \<lparr>description = mkDesc name h, valueMapper = f\<rparr>"

definition metrics :: "(string \<times> metric) list" where
  "metrics =
   [(''alarm'', mkMetric ''alarm'' ''1 if the alarm is on.'' (\<lambda>i. valueOneOf i valOffOn)),
    (''alarmState'', mkMetric ''alarm_cleared'' ''0 if the alarm is clear.'' valueClear),
    (''battery'', mkMetric ''battery_percentage'' ''Percentage of battery remaining.'' valueFloat),
    (''carbonMonoxide'', mkMetric ''contact_closed'' ''1 if the contact is closed.'' valueClear),
    (''contact'', mkMetric ''contact_closed'' ''1 if the contact is closed.''
        (\<lambda>i. valueOneOf i valOpenClosed)),
    (''energy'', mkMetric ''energy_usage_joules'' ''Energy usage in joules.'' energyMapper),
    (''humidity'', mkMetric ''humidity_level'' ''Humidity Level.'' valueFloat),
    (''fanSpeed'', mkMetric ''fan_level'' ''Fan Level.'' valueFloat),
    (''illuminance'', mkMetric ''lux_level'' ''LUX Level.'' valueFloat),
    (''level'', mkMetric ''level_percent'' ''Level.'' valueFloat),
    (''lock'', mkMetric ''locked'' ''Is Locked.'' (\<lambda>i. valueOneOf i valLockedUnlocked)),
    (''motion'', mkMetric ''motion_detected'' ''1 if presence is detected.''
        (\<lambda>i. valueOneOf i valInactiveActive)),
    (''power'', mkMetric ''power_usage_watts'' ''Current power usage in watts.'' valueFloat),
    (''presence'', mkMetric ''presence_detected'' ''1 if presence is detected.''
        (\<lambda>i. valueOneOf i valAbsentPresent)),
    (''pressure'', mkMetric ''pressure_pascals'' ''Current pressure in pascals.'' valueFloat),
    (''smoke'', mkMetric ''smoke_detected'' ''1 if smoke is detected.'' valueClear),
    (''switch'', mkMetric ''switch_enabled'' ''1 if the switch is on.''
        (\<lambda>i. valueOneOf i valOffOn)),
    (''temperature'', mkMetric ''temperature_fahrenheit'' ''Temperature in fahrenheit.'' valueFloat),
    (''ultravioletIndex'', mkMetric ''ultraviolet_index'' ''Ultraviolet Index.'' valueFloat),
    (''speed'', mkMetric ''speed_miles_per_hour'' ''Speed at Miles Per Hour.'' valueFloat),
    (''heading'', mkMetric ''heading'' ''heading.'' valueFloat),
    (''longitude'', mkMetric ''longitude'' ''longitude.'' valueFloat),
    (''latitude'', mkMetric ''latitude'' ''latitude.'' valueFloat),
    (''odometer'', mkMetric ''odometer'' ''odometer.'' valueFloat),
    (''batteryRange'', mkMetric ''battery_range'' ''Range in Miles for Battery.'' valueFloat),
    (''healthStatus'', mkMetric ''healthStatus'' ''Health Status.'' valueFloat),
    (''hue'', mkMetric ''hue'' ''Lighting Hue.'' valueFloat),
    (''saturation'', mkMetric ''saturation'' ''Lighting Saturation.'' valueFloat),
    (''whiteLevel'', mkMetric ''whiteLevel'' ''White Light Level.'' valueFloat),
    (''checkInterval'', mkMetric ''checkInterval'' ''Check Interval.'' valueFloat),
    (''colorTemperature'', mkMetric ''colorTemperature'' ''Color Temperature.'' valueFloat)]"

definition dropIndex :: "(string \<times> string) list \<Rightarrow> string \<Rightarrow> string" where
  "dropIndex tbl k = (case map_of tbl k of None \<Rightarrow> '''' | Some s \<Rightarrow> s)"

section \<open>Collect\<close>

text \<open>\<^verbatim>\<open>gosmart.DeviceInfo\<close>, with the fields that \<^verbatim>\<open>Collect\<close> reads.\<close>

record deviceInfo =
  ID :: string
  DisplayName :: string
  Attributes :: "(string \<times> iface) list"

text \<open>
  A constant gauge sample, as \<^verbatim>\<open>prometheus.MustNewConstMetric\<close> builds it from a
  description, the gauge reading and the label values.
\<close>

record sample =
  sampleDesc :: desc
  gauge :: float64
  labelValues :: "string list"

definition MustNewConstMetric :: "desc \<Rightarrow> float64 \<Rightarrow> string list \<Rightarrow> sample" where
  "MustNewConstMetric d x lvs = \<lparr>sampleDesc = d, gauge = x, labelValues = lvs\<rparr>"

text \<open>The calls to the logger \<^verbatim>\<open>plog\<close>: level, and format string with its arguments.\<close>

datatype level = DebugLevel | ErrorLevel

datatype message =
    ReadingDevicesFailed string string
  | FetchingAttributes string string nat
  | AttrDropped string iface
  | AttrUnknown string iface
  | AttrMapped string float64 desc
  | AttrInvalid string string float64 error

text \<open>The three package-level counters and the log written so far.\<close>

record state =
  invalidMetric :: nat
  unknownMetric :: nat
  droppedMetric :: nat
  plog :: "(level \<times> message) list"

definition Debugf :: "message \<Rightarrow> state \<Rightarrow> state" where
  "Debugf m st = st\<lparr>plog := plog st @ [(DebugLevel, m)]\<rparr>"

definition Errorf :: "message \<Rightarrow> state \<Rightarrow> state" where
  "Errorf m st = st\<lparr>plog := plog st @ [(ErrorLevel, m)]\<rparr>"

text \<open>
  The body of the inner loop of \<^verbatim>\<open>Collect\<close> for one attribute \<open>(k, val)\<close> of a device:
  \<open>ch\<close> is what has been sent on the channel so far.
\<close>

definition collectAttr ::
  "deviceInfo \<Rightarrow> string \<times> iface \<Rightarrow> sample list \<times> state \<Rightarrow> sample list \<times> state" where
  "collectAttr dev kv cs =
     (let k = fst kv; ch = fst cs; st = snd cs;
          val = (if snd kv = INil then IString '''' else snd kv);
          toDrop = dropIndex metricsToDrop k
      in if toDrop \<noteq> '''' then
           (ch, Debugf (AttrDropped k val) (st\<lparr>droppedMetric := droppedMetric st + 1\<rparr>))
         else
           (case map_of metrics k of
              None \<Rightarrow>
                (ch, Debugf (AttrUnknown k val) (st\<lparr>unknownMetric := unknownMetric st + 1\<rparr>))
            | Some m \<Rightarrow>
                (let r = valueMapper m val;
                     st1 = Debugf (AttrMapped k (fst r) (description m)) st
                 in case snd r of
                      None \<Rightarrow>
                        (ch @ [MustNewConstMetric (description m) (fst r)
                                 [ID dev, DisplayName dev]], st1)
                    | Some err \<Rightarrow>
                        (ch, Errorf (AttrInvalid (DisplayName dev) k (fst r) err)
                               (st1\<lparr>invalidMetric := invalidMetric st1 + 1\<rparr>)))))"

definition collectDev :: "deviceInfo \<Rightarrow> sample list \<times> state \<Rightarrow> sample list \<times> state" where
  "collectDev dev cs =
     fold (collectAttr dev) (Attributes dev)
       (fst cs, Debugf (FetchingAttributes (DisplayName dev) (ID dev) (length (Attributes dev)))
                  (snd cs))"

text \<open>
  \<^verbatim>\<open>Collect\<close>. The answer of \<^verbatim>\<open>gosmart.GetAllDevices\<close> is its argument: the devices and
  the error (\<open>None\<close> for nil). The exporter is represented by its endpoint.
\<close>

definition Collect ::
  "string \<Rightarrow> deviceInfo list \<times> string option \<Rightarrow> sample list \<Rightarrow> state \<Rightarrow> sample list \<times> state" where
  "Collect endpoint answer ch st =
     (let devs = fst answer; err = snd answer;
          st1 = (case err of None \<Rightarrow> st | Some e \<Rightarrow> Errorf (ReadingDevicesFailed endpoint e) st)
      in fold collectDev devs (ch, st1))"

section \<open>The classification of one attribute\<close>

text \<open>
  The decision taken by the loop body, without its effects, over any two tables: first
  the nil value becomes the empty string, then the drop table is asked, then the
  registry, then the mapper of the entry found.
\<close>

datatype outcome = Dropped | Unknown | Converted desc float64 | Invalid error

definition classifyIn ::
  "(string \<times> string) list \<Rightarrow> (string \<times> metric) list \<Rightarrow> string \<Rightarrow> iface \<Rightarrow> outcome" where
  "classifyIn drops registry k v =
     (let val = (if v = INil then IString '''' else v)
      in if dropIndex drops k \<noteq> '''' then Dropped
         else (case map_of registry k of
                 None \<Rightarrow> Unknown
               | Some m \<Rightarrow>
                   (case snd (valueMapper m val) of
                      None \<Rightarrow> Converted (description m) (fst (valueMapper m val))
                    | Some err \<Rightarrow> Invalid err)))"

definition classify :: "string \<Rightarrow> iface \<Rightarrow> outcome" where
  "classify = classifyIn metricsToDrop metrics"

text \<open>The five option pairs that the registry passes to \<^verbatim>\<open>valueOneOf\<close>.\<close>

definition enumPairs :: "options list" where
  "enumPairs = [valOpenClosed, valLockedUnlocked, valInactiveActive, valAbsentPresent, valOffOn]"

section \<open>What one collection cycle adds\<close>

text \<open>
  The samples one attribute of a device contributes, and the number of attributes of a
  device list that each counter counts.
\<close>

definition samplesOf :: "deviceInfo \<Rightarrow> string \<times> iface \<Rightarrow> sample list" where
  "samplesOf dev kv =
     (case classify (fst kv) (snd kv) of
        Converted d x \<Rightarrow> [MustNewConstMetric d x [ID dev, DisplayName dev]]
      | _ \<Rightarrow> [])"

fun isInvalid :: "outcome \<Rightarrow> bool" where
  "isInvalid (Invalid e) = True"
| "isInvalid _ = False"

definition droppedIn :: "deviceInfo list \<Rightarrow> nat" where
  "droppedIn devs =
     sum_list (map (\<lambda>d. length (filter (\<lambda>kv. classify (fst kv) (snd kv) = Dropped)
                                   (Attributes d))) devs)"

definition unknownIn :: "deviceInfo list \<Rightarrow> nat" where
  "unknownIn devs =
     sum_list (map (\<lambda>d. length (filter (\<lambda>kv. classify (fst kv) (snd kv) = Unknown)
                                   (Attributes d))) devs)"

definition invalidIn :: "deviceInfo list \<Rightarrow> nat" where
  "invalidIn devs =
     sum_list (map (\<lambda>d. length (filter (\<lambda>kv. isInvalid (classify (fst kv) (snd kv)))
                                   (Attributes d))) devs)"

text \<open>
  Two readings of one snapshot: the same devices in the same order, the attribute map of
  each device iterated in a possibly different order (Go does not fix the iteration
  order of a map).
\<close>

definition sameSnapshot :: "deviceInfo list \<Rightarrow> deviceInfo list \<Rightarrow> bool" where
  "sameSnapshot devs devs' =
     list_all2 (\<lambda>d d'. ID d = ID d' \<and> DisplayName d = DisplayName d' \<and>
                        mset (Attributes d) = mset (Attributes d')) devs devs'"

section \<open>Facts about float64\<close>

lemmas f64_eval = float64_of_nat_def round64_def roundHalfEven_def bitlen.simps mantissa_def
  exponent_def Let_def

text \<open>The fields of the constants that occur below.\<close>

lemma float64_0_1: "float64_of_nat 0 = 0" "float64_of_nat 1 = 1"
  by (simp_all add: f64_eval zero_float64_def one_float64_def)

lemma float64_2: "float64_of_nat 2 = Finite64 False 1024 0"
  by (simp add: f64_eval)

lemma float64_5: "float64_of_nat 5 = Finite64 False 1025 1125899906842624"
  by (simp add: f64_eval)

lemma float64_55: "float64_of_nat 55 = Finite64 False 1028 3236962232172544"
  by (simp add: f64_eval)

lemma float64_360000: "float64_of_nat 360000 = Finite64 False 1041 1681153278869504"
  by (simp add: f64_eval)

lemma float64_3600000: "float64_of_nat 3600000 = Finite64 False 1044 3227341505429504"
  by (simp add: f64_eval)

lemma float64_7200000: "float64_of_nat 7200000 = Finite64 False 1045 3227341505429504"
  by (simp add: f64_eval)

lemma realOf_consts:
  "realOf (float64_of_nat 2) = Some 2"
  "realOf (float64_of_nat 5) = Some 5"
  "realOf (float64_of_nat 55) = Some 55"
  "realOf (float64_of_nat 3600000) = Some 3600000"
  "realOf (float64_of_nat 7200000) = Some 7200000"
  unfolding float64_2 float64_5 float64_55 float64_3600000 float64_7200000
  by (simp_all add: mantissa_def exponent_def)

text \<open>Two times 3600000 is exact.\<close>

lemma fmul_two: "fmul (float64_of_nat 2) (float64_of_nat 3600000) = float64_of_nat 7200000"
  unfolding float64_2 float64_3600000 float64_7200000 by (simp add: f64_eval)

text \<open>Zero times 3600000 is zero.\<close>

lemma fmul_zero: "fmul 0 (float64_of_nat 3600000) = 0"
  unfolding float64_3600000 zero_float64_def by (simp add: f64_eval)

text \<open>
  The product is rounded: the float64 nearest to one tenth is a little more than one
  tenth, and its product with 3600000 is the float64 of 360000.
\<close>

lemma fmul_rounds:
  "realOf (Finite64 False 1019 2702159776422298) =
     Some (3602879701896397 / 36028797018963968)"
  "fmul (Finite64 False 1019 2702159776422298) (float64_of_nat 3600000) = float64_of_nat 360000"
  unfolding float64_3600000 float64_360000 by (simp_all add: f64_eval)

text \<open>
  The product overflows to the infinity: the float64 nearest to \<open>10 ^ 308\<close> times
  3600000. It keeps the sign of a zero, and it is exact on the smallest subnormal number.
\<close>

lemma fmul_overflows:
  "fmul (Finite64 False 2046 506821272651936) (float64_of_nat 3600000) = Inf64 False"
  unfolding float64_3600000 by (simp add: f64_eval)

lemma fmul_negative_zero:
  "fmul (Finite64 True 0 0) (float64_of_nat 3600000) = Finite64 True 0 0"
  unfolding float64_3600000 by (simp add: f64_eval)

lemma fmul_subnormal:
  "fmul (Finite64 False 0 1) (float64_of_nat 3600000) = Finite64 False 0 3600000"
  unfolding float64_3600000 by (simp add: f64_eval)

text \<open>The fields of a rounded value, and so of every product, are in range.\<close>

lemma wf_round64: "wf64 (round64 s M Q)"
proof (cases "M = 0")
  case True
  then show ?thesis by (simp add: round64_def)
next
  case False
  define q where "q = max (int (bitlen M) - 1 + Q - 52) (- 1074)"
  define m where "m = (if q \<le> Q then M * 2 ^ nat (Q - q) else roundHalfEven M (nat (q - Q)))"
  from False have "round64 s M Q =
     (if m < 2 ^ 52 then Finite64 s 0 m
      else if m < 2 ^ 53 then
        (if q + 1075 < 2047 then Finite64 s (nat (q + 1075)) (m - 2 ^ 52) else Inf64 s)
      else (if q + 1076 < 2047 then Finite64 s (nat (q + 1076)) 0 else Inf64 s))"
    unfolding round64_def Let_def q_def m_def by (simp only: if_False)
  then show ?thesis by auto
qed

lemma wf_fmul: "wf64 (fmul x y)"
  by (cases x; cases y) (simp_all add: wf_round64)

section \<open>Facts about the tables\<close>

lemma drop_values: "\<forall>p \<in> set metricsToDrop. snd p = ''stuff here''"
  unfolding metricsToDrop_def by simp

lemma dropIndex_key:
  assumes "k \<in> fst ` set metricsToDrop"
  shows "dropIndex metricsToDrop k = ''stuff here''"
proof -
  from assms obtain s where "map_of metricsToDrop k = Some s"
    by (metis domIff dom_map_of_conv_image_fst not_Some_eq)
  moreover from this have "(k, s) \<in> set metricsToDrop" by (rule map_of_SomeD)
  with drop_values have "s = ''stuff here''" by fastforce
  ultimately show ?thesis by (simp add: dropIndex_def)
qed

lemma dropIndex_nokey:
  assumes "k \<notin> fst ` set metricsToDrop"
  shows "dropIndex metricsToDrop k = ''''"
proof -
  from assms have "map_of metricsToDrop k = None" by (simp add: map_of_eq_None_iff)
  then show ?thesis by (simp add: dropIndex_def)
qed

text \<open>No attribute name is a key of both tables.\<close>

lemma disjoint_tables: "fst ` set metricsToDrop \<inter> fst ` set metrics = {}"
  unfolding metricsToDrop_def metrics_def by simp

lemma registered_not_dropped:
  assumes "map_of metrics k = Some m"
  shows "dropIndex metricsToDrop k = ''''"
proof -
  from assms have "k \<in> fst ` set metrics"
    by (metis map_of_eq_None_iff option.distinct(1))
  with disjoint_tables have "k \<notin> fst ` set metricsToDrop" by blast
  then show ?thesis by (rule dropIndex_nokey)
qed

lemma classify_registered:
  assumes "map_of metrics k = Some m"
  shows "classify k v =
    (case snd (valueMapper m (if v = INil then IString '''' else v)) of
       None \<Rightarrow> Converted (description m) (fst (valueMapper m (if v = INil then IString '''' else v)))
     | Some err \<Rightarrow> Invalid err)"
  using assms registered_not_dropped [OF assms]
  by (simp add: classify_def classifyIn_def Let_def)

lemma reg_battery:
  "map_of metrics ''battery'' =
     Some (mkMetric ''battery_percentage'' ''Percentage of battery remaining.'' valueFloat)"
  by (simp add: metrics_def)

lemma reg_humidity:
  "map_of metrics ''humidity'' = Some (mkMetric ''humidity_level'' ''Humidity Level.'' valueFloat)"
  by (simp add: metrics_def)

lemma reg_energy:
  "map_of metrics ''energy'' =
     Some (mkMetric ''energy_usage_joules'' ''Energy usage in joules.'' energyMapper)"
  by (simp add: metrics_def)

lemma reg_contact:
  "map_of metrics ''contact'' =
     Some (mkMetric ''contact_closed'' ''1 if the contact is closed.''
             (\<lambda>i. valueOneOf i valOpenClosed))"
  by (simp add: metrics_def)

lemma reg_carbonMonoxide:
  "map_of metrics ''carbonMonoxide'' =
     Some (mkMetric ''contact_closed'' ''1 if the contact is closed.'' valueClear)"
  by (simp add: metrics_def)

lemma reg_smoke:
  "map_of metrics ''smoke'' = Some (mkMetric ''smoke_detected'' ''1 if smoke is detected.'' valueClear)"
  by (simp add: metrics_def)

lemma reg_lock:
  "map_of metrics ''lock'' =
     Some (mkMetric ''locked'' ''Is Locked.'' (\<lambda>i. valueOneOf i valLockedUnlocked))"
  by (simp add: metrics_def)

text \<open>Every mapper of the registry is one of the four kinds.\<close>

lemma mapper_shapes:
  "\<forall>p \<in> set metrics.
     valueMapper (snd p) = valueFloat \<or> valueMapper (snd p) = valueClear \<or>
     valueMapper (snd p) = energyMapper \<or>
     (\<exists>opts \<in> set enumPairs. valueMapper (snd p) = (\<lambda>i. valueOneOf i opts))"
  by (simp add: metrics_def mkMetric_def enumPairs_def)

text \<open>
  Every description has two labels, as many as the label values \<^verbatim>\<open>Collect\<close> passes to
  \<^verbatim>\<open>MustNewConstMetric\<close>, which therefore never panics.
\<close>

lemma labels_ok: "\<forall>p \<in> set metrics. variableLabels (description (snd p)) = [''id'', ''name'']"
  by (simp add: metrics_def mkMetric_def mkDesc_def NewDesc_def)

section \<open>Facts about the value mappers\<close>

lemma valueFloat_err: "snd (valueFloat v) = Some e \<Longrightarrow> e = NonFloatArgument v"
  by (cases v) (auto split: if_splits)

lemma energyMapper_err: "snd (energyMapper v) = Some e \<Longrightarrow> e = NonFloatArgument v"
  by (cases v) (auto simp: energyMapper_def split: if_splits)

lemma valueClear_err:
  "snd (valueClear v) = Some e \<Longrightarrow> e = NonStringArgument v \<and> (\<forall>s. v \<noteq> IString s)"
  by (cases v) (auto split: if_splits)

lemma valueOneOf_err:
  "snd (valueOneOf v opts) = Some e \<Longrightarrow>
     (e = NonStringArgument v \<and> (\<forall>s. v \<noteq> IString s)) \<or>
     (\<exists>s. v = IString s \<and> s \<noteq> fst opts \<and> s \<noteq> snd opts \<and>
          e = InvalidOption s (fst opts) (snd opts))"
  by (cases v) (auto split: if_splits)

lemma valueOneOf_pairs:
  assumes "opts \<in> set enumPairs"
  shows "fst opts \<noteq> snd opts" and "fst opts \<noteq> ''''" and "snd opts \<noteq> ''''"
  using assms
  by (auto simp: enumPairs_def valOpenClosed_def valLockedUnlocked_def valInactiveActive_def
      valAbsentPresent_def valOffOn_def)

text \<open>An invalid outcome is the error of a mapper of the registry, applied to the normalised value.\<close>

lemma classify_Invalid_mapper:
  assumes "classify k v = Invalid e" and "val = (if v = INil then IString '''' else v)"
  shows "\<exists>m. (k, m) \<in> set metrics \<and> snd (valueMapper m val) = Some e"
proof (cases "map_of metrics k")
  case None
  with assms(1) show ?thesis
    by (simp add: classify_def classifyIn_def Let_def split: if_splits)
next
  case (Some m)
  have "(case snd (valueMapper m val) of None \<Rightarrow> Converted (description m) (fst (valueMapper m val))
         | Some err \<Rightarrow> Invalid err) = Invalid e"
    unfolding assms(2) classify_registered [OF Some, symmetric] by (rule assms(1))
  then have "snd (valueMapper m val) = Some e"
    by (cases "snd (valueMapper m val)") simp_all
  with map_of_SomeD [OF Some] show ?thesis by blast
qed

section \<open>Dropped and unknown attributes\<close>

text \<open>
  Claim C1. An attribute whose name is a key of \<open>metricsToDrop\<close> is dropped whatever its
  value is: the decision is \<open>Dropped\<close>, the loop body adds one to \<open>droppedMetric\<close>, writes
  one debug line and sends nothing on the channel. The drop table is asked before the
  registry, so this holds over every registry, also one that has an entry for the name.
\<close>

theorem C1_drop_first:
  assumes "k \<in> fst ` set metricsToDrop"
  shows "classifyIn metricsToDrop registry k v = Dropped \<and>
         classify k v = Dropped \<and>
         collectAttr dev (k, v) (ch, st) =
           (ch, Debugf (AttrDropped k (if v = INil then IString '''' else v))
                  (st\<lparr>droppedMetric := droppedMetric st + 1\<rparr>))"
  using dropIndex_key [OF assms]
  by (simp add: classify_def classifyIn_def collectAttr_def Let_def)

theorem C1_drop_first_witness:
  "''door'' \<in> fst ` set metricsToDrop \<and>
   map_of [(''door'', mkMetric ''door_open'' ''1 if the door is open.'' valueFloat)] ''door'' \<noteq> None \<and>
   classifyIn metricsToDrop [(''door'', mkMetric ''door_open'' ''1 if the door is open.'' valueFloat)]
     ''door'' (IFloat64 1) = Dropped \<and>
   classify ''door'' (IFloat64 1) = Dropped \<and>
   collectAttr \<lparr>ID = ''1'', DisplayName = ''Front Door'', Attributes = [(''door'', IFloat64 1)]\<rparr>
     (''door'', IFloat64 1)
     ([], \<lparr>invalidMetric = 0, unknownMetric = 0, droppedMetric = 0, plog = []\<rparr>) =
     ([], \<lparr>invalidMetric = 0, unknownMetric = 0, droppedMetric = 1,
           plog = [(DebugLevel, AttrDropped ''door'' (IFloat64 1))]\<rparr>)"
proof -
  have h: "''door'' \<in> fst ` set metricsToDrop"
    by (simp add: metricsToDrop_def)
  show ?thesis
    using h C1_drop_first [OF h, of "[(''door'', mkMetric ''door_open'' ''1 if the door is open.'' valueFloat)]"
        "IFloat64 1" "\<lparr>ID = ''1'', DisplayName = ''Front Door'', Attributes = [(''door'', IFloat64 1)]\<rparr>"
        "[]" "\<lparr>invalidMetric = 0, unknownMetric = 0, droppedMetric = 0, plog = []\<rparr>"]
    by (simp add: Debugf_def)
qed

text \<open>
  Claim C2. An attribute whose name is a key of neither table is unknown whatever its
  value is: the decision is \<open>Unknown\<close>, the loop body adds one to \<open>unknownMetric\<close>, writes
  one debug line and sends nothing on the channel.
\<close>

theorem C2_unknown:
  assumes "k \<notin> fst ` set metricsToDrop" and "k \<notin> fst ` set metrics"
  shows "classify k v = Unknown \<and>
         collectAttr dev (k, v) (ch, st) =
           (ch, Debugf (AttrUnknown k (if v = INil then IString '''' else v))
                  (st\<lparr>unknownMetric := unknownMetric st + 1\<rparr>))"
proof -
  from assms(2) have "map_of metrics k = None" by (simp add: map_of_eq_None_iff)
  with dropIndex_nokey [OF assms(1)] show ?thesis
    by (simp add: classify_def classifyIn_def collectAttr_def Let_def)
qed

theorem C2_unknown_witness:
  "''weirdAttr'' \<notin> fst ` set metricsToDrop \<and> ''weirdAttr'' \<notin> fst ` set metrics \<and>
   classify ''weirdAttr'' (IString ''x'') = Unknown \<and>
   collectAttr \<lparr>ID = ''2'', DisplayName = ''Hub'', Attributes = [(''weirdAttr'', IString ''x'')]\<rparr>
     (''weirdAttr'', IString ''x'')
     ([], \<lparr>invalidMetric = 0, unknownMetric = 0, droppedMetric = 0, plog = []\<rparr>) =
     ([], \<lparr>invalidMetric = 0, unknownMetric = 1, droppedMetric = 0,
           plog = [(DebugLevel, AttrUnknown ''weirdAttr'' (IString ''x''))]\<rparr>)"
proof -
  have h1: "''weirdAttr'' \<notin> fst ` set metricsToDrop"
    by (simp add: metricsToDrop_def)
  have h2: "''weirdAttr'' \<notin> fst ` set metrics"
    by (simp add: metrics_def)
  show ?thesis
    using h1 h2 C2_unknown [OF h1 h2, of "IString ''x''"
        "\<lparr>ID = ''2'', DisplayName = ''Hub'', Attributes = [(''weirdAttr'', IString ''x'')]\<rparr>"
        "[]" "\<lparr>invalidMetric = 0, unknownMetric = 0, droppedMetric = 0, plog = []\<rparr>"]
    by (simp add: Debugf_def)
qed

section \<open>The mapper families\<close>

text \<open>
  Claim C3. \<open>valueFloat\<close> gives 0 for the empty string, gives a float64 back as it is, and
  gives the error "non floating-point argument" for every other value. A nil value is
  replaced by the empty string before the mapper runs, so for \<^verbatim>\<open>battery\<close> the empty string
  and nil are converted to 0 of the metric battery\_percentage, the float64 of 55 is
  converted to itself, and
  the string "bogus" is invalid with the type error.
\<close>

theorem C3_float:
  "valueFloat (IString '''') = (0, None) \<and>
   valueFloat (IFloat64 x) = (x, None) \<and>
   (v \<noteq> IString '''' \<and> (\<forall>y. v \<noteq> IFloat64 y) \<longrightarrow> valueFloat v = (0, Some (NonFloatArgument v))) \<and>
   classify ''battery'' (IString '''') =
     Converted (mkDesc ''battery_percentage'' ''Percentage of battery remaining.'') 0 \<and>
   classify ''battery'' INil =
     Converted (mkDesc ''battery_percentage'' ''Percentage of battery remaining.'') 0 \<and>
   classify ''battery'' (IFloat64 x) =
     Converted (mkDesc ''battery_percentage'' ''Percentage of battery remaining.'') x \<and>
   classify ''battery'' (IFloat64 (float64_of_nat 55)) =
     Converted (mkDesc ''battery_percentage'' ''Percentage of battery remaining.'')
       (float64_of_nat 55) \<and>
   classify ''battery'' (IString ''bogus'') = Invalid (NonFloatArgument (IString ''bogus''))"
proof -
  have "v \<noteq> IString '''' \<and> (\<forall>y. v \<noteq> IFloat64 y) \<longrightarrow> valueFloat v = (0, Some (NonFloatArgument v))"
    by (cases v) auto
  then show ?thesis
    by (simp add: classify_registered [OF reg_battery] mkMetric_def)
qed

theorem C3_float_witness:
  "IBool True \<noteq> IString '''' \<and> (\<forall>y. IBool True \<noteq> IFloat64 y) \<and>
   valueFloat (IBool True) = (0, Some (NonFloatArgument (IBool True))) \<and>
   valueFloat (IFloat64 (float64_of_nat 55)) = (float64_of_nat 55, None) \<and>
   realOf (float64_of_nat 55) = Some 55 \<and>
   fqName (mkDesc ''battery_percentage'' ''Percentage of battery remaining.'') =
     ''smartthings_battery_percentage''"
  using C3_float [of "float64_of_nat 55" "IBool True"]
  by (simp add: mkDesc_def NewDesc_def BuildFQName_def namespace_def realOf_consts)

text \<open>
  Claim C4. The mapper of \<^verbatim>\<open>energy\<close> runs \<open>valueFloat\<close> and multiplies its result by
  the constant 3600000, in float64 arithmetic: every float64 \<open>x\<close> is converted to the
  float64 product of \<open>x\<close> and 3600000 of the metric energy\_usage\_joules. The float64 of
  2 is converted to the float64 of 7200000, which is the exact product, and an error of
  \<open>valueFloat\<close> makes the attribute invalid with that error.
\<close>

theorem C4_energy:
  "energyMapper (IFloat64 x) = (fmul x (float64_of_nat 3600000), None) \<and>
   classify ''energy'' (IFloat64 x) =
     Converted (mkDesc ''energy_usage_joules'' ''Energy usage in joules.'')
       (fmul x (float64_of_nat 3600000)) \<and>
   classify ''energy'' (IFloat64 (float64_of_nat 2)) =
     Converted (mkDesc ''energy_usage_joules'' ''Energy usage in joules.'')
       (float64_of_nat 7200000) \<and>
   realOf (float64_of_nat 2) = Some 2 \<and>
   realOf (float64_of_nat 3600000) = Some 3600000 \<and>
   realOf (float64_of_nat 7200000) = Some 7200000 \<and>
   classify ''energy'' v =
     (case valueFloat (if v = INil then IString '''' else v) of
        (y, None) \<Rightarrow> Converted (mkDesc ''energy_usage_joules'' ''Energy usage in joules.'')
                       (fmul y (float64_of_nat 3600000))
      | (y, Some err) \<Rightarrow> Invalid err) \<and>
   classify ''energy'' (IString ''bogus'') = Invalid (NonFloatArgument (IString ''bogus''))"
proof -
  have "classify ''energy'' v =
     (case valueFloat (if v = INil then IString '''' else v) of
        (y, None) \<Rightarrow> Converted (mkDesc ''energy_usage_joules'' ''Energy usage in joules.'')
                       (fmul y (float64_of_nat 3600000))
      | (y, Some err) \<Rightarrow> Invalid err)"
    by (cases v) (simp_all add: classify_registered [OF reg_energy] mkMetric_def energyMapper_def)
  then show ?thesis
    by (simp add: classify_registered [OF reg_energy] mkMetric_def energyMapper_def fmul_two
        realOf_consts)
qed

theorem C4_energy_witness:
  "classify ''energy'' (IFloat64 (Finite64 False 1019 2702159776422298)) =
     Converted (mkDesc ''energy_usage_joules'' ''Energy usage in joules.'')
       (float64_of_nat 360000) \<and>
   classify ''energy'' (IFloat64 (Finite64 False 2046 506821272651936)) =
     Converted (mkDesc ''energy_usage_joules'' ''Energy usage in joules.'') (Inf64 False) \<and>
   classify ''energy'' INil =
     Converted (mkDesc ''energy_usage_joules'' ''Energy usage in joules.'') 0 \<and>
   classify ''energy'' (IBool True) = Invalid (NonFloatArgument (IBool True))"
  using C4_energy [of "Finite64 False 1019 2702159776422298" INil]
    C4_energy [of "Finite64 False 2046 506821272651936" "IBool True"]
  by (simp add: fmul_rounds fmul_overflows fmul_zero)

text \<open>
  Claim C5. For each of the five option pairs of the registry, \<open>valueOneOf\<close> gives 0 for
  the first option, 1 for the second, the error "invalid option" holding the string and
  both options for any other string, and the error "non-string argument" for a value
  that is not a string. For \<^verbatim>\<open>contact\<close>, wired to the pair open/closed: "open" is
  converted to 0, "closed" to 1, and "ajar" is invalid with the option error.
\<close>

theorem C5_one_of:
  assumes "opts \<in> set enumPairs"
  shows "valueOneOf (IString (fst opts)) opts = (0, None) \<and>
   valueOneOf (IString (snd opts)) opts = (1, None) \<and>
   (s \<noteq> fst opts \<and> s \<noteq> snd opts \<longrightarrow>
      valueOneOf (IString s) opts = (0, Some (InvalidOption s (fst opts) (snd opts)))) \<and>
   ((\<forall>t. v \<noteq> IString t) \<longrightarrow> valueOneOf v opts = (0, Some (NonStringArgument v))) \<and>
   classify ''contact'' (IString ''open'') =
     Converted (mkDesc ''contact_closed'' ''1 if the contact is closed.'') 0 \<and>
   classify ''contact'' (IString ''closed'') =
     Converted (mkDesc ''contact_closed'' ''1 if the contact is closed.'') 1 \<and>
   classify ''contact'' (IString ''ajar'') = Invalid (InvalidOption ''ajar'' ''open'' ''closed'')"
proof -
  have "(\<forall>t. v \<noteq> IString t) \<longrightarrow> valueOneOf v opts = (0, Some (NonStringArgument v))"
    by (cases v) auto
  with valueOneOf_pairs(1) [OF assms] show ?thesis
    by (simp add: classify_registered [OF reg_contact] mkMetric_def valOpenClosed_def)
qed

theorem C5_one_of_witness:
  "valLockedUnlocked \<in> set enumPairs \<and>
   ''ajar'' \<noteq> fst valLockedUnlocked \<and> ''ajar'' \<noteq> snd valLockedUnlocked \<and>
   (\<forall>t. IFloat64 (float64_of_nat 5) \<noteq> IString t) \<and>
   valueOneOf (IString ''locked'') valLockedUnlocked = (0, None) \<and>
   valueOneOf (IString ''unlocked'') valLockedUnlocked = (1, None) \<and>
   valueOneOf (IString ''ajar'') valLockedUnlocked =
     (0, Some (InvalidOption ''ajar'' ''locked'' ''unlocked'')) \<and>
   valueOneOf (IFloat64 (float64_of_nat 5)) valLockedUnlocked =
     (0, Some (NonStringArgument (IFloat64 (float64_of_nat 5))))"
proof -
  have h: "valLockedUnlocked \<in> set enumPairs"
    by (simp add: enumPairs_def)
  show ?thesis
    using h C5_one_of [OF h, of "''ajar''" "IFloat64 (float64_of_nat 5)"]
    by (simp add: valLockedUnlocked_def)
qed

text \<open>
  Claim C6, as stated, fails: \<open>valueClear\<close> does not give an error for the empty string.
  The empty string is a string other than "clear", so the result is 1 with no error, and
  \<^verbatim>\<open>smoke\<close> with the empty string is converted to 1.
\<close>

theorem C6_counterexample:
  "valueClear (IString '''') = (1, None) \<and>
   classify ''smoke'' (IString '''') =
     Converted (mkDesc ''smoke_detected'' ''1 if smoke is detected.'') 1"
  by (simp add: classify_registered [OF reg_smoke] mkMetric_def)

text \<open>
  Claim C6, amended. For each of the five option pairs, \<open>valueOneOf\<close> gives the error
  "invalid option" for the empty string, which is neither option; \<open>valueClear\<close> gives 1
  with no error for the empty string; \<open>valueFloat\<close> gives 0 with no error.
\<close>

theorem C6_empty_string:
  assumes "opts \<in> set enumPairs"
  shows "valueOneOf (IString '''') opts = (0, Some (InvalidOption '''' (fst opts) (snd opts))) \<and>
         valueClear (IString '''') = (1, None) \<and>
         valueFloat (IString '''') = (0, None)"
  using valueOneOf_pairs(2,3) [OF assms] by auto

theorem C6_empty_string_witness:
  "valOffOn \<in> set enumPairs \<and>
   valueOneOf (IString '''') valOffOn = (0, Some (InvalidOption '''' ''off'' ''on''))"
proof -
  have h: "valOffOn \<in> set enumPairs"
    by (simp add: enumPairs_def)
  show ?thesis
    using h C6_empty_string [OF h] by (simp add: valOffOn_def)
qed

section \<open>What an error holds\<close>

text \<open>
  Claim C7, as stated, fails. A mapper is given the value only, so its error cannot hold
  the attribute name: \<^verbatim>\<open>battery\<close> and \<^verbatim>\<open>humidity\<close> give the same error for the string
  "bogus". And the error of an enumerated mapper for a value that is not a string holds
  no options: \<^verbatim>\<open>contact\<close> (open/closed) and \<^verbatim>\<open>lock\<close> (locked/unlocked) give the same error
  for the number 1.
\<close>

theorem C7_counterexample:
  "classify ''battery'' (IString ''bogus'') = Invalid (NonFloatArgument (IString ''bogus'')) \<and>
   classify ''humidity'' (IString ''bogus'') = Invalid (NonFloatArgument (IString ''bogus'')) \<and>
   classify ''contact'' (IFloat64 1) = Invalid (NonStringArgument (IFloat64 1)) \<and>
   classify ''lock'' (IFloat64 1) = Invalid (NonStringArgument (IFloat64 1))"
  by (simp add: classify_registered [OF reg_battery] classify_registered [OF reg_humidity]
      classify_registered [OF reg_contact] classify_registered [OF reg_lock] mkMetric_def)

text \<open>
  Claim C7, amended. Every error of an invalid outcome holds the value the mapper was
  given (the attribute value, nil replaced by the empty string): it is the float error
  for that value, or the string error for that value, which then is not a string, or the
  option error for that string together with the two options of one of the five pairs,
  neither of which is the string. The attribute name is not part of the error.
\<close>

theorem C7_error_content:
  assumes "classify k v = Invalid e" and "val = (if v = INil then IString '''' else v)"
  shows "e = NonFloatArgument val \<or>
         (e = NonStringArgument val \<and> (\<forall>s. val \<noteq> IString s)) \<or>
         (\<exists>s opts. val = IString s \<and> opts \<in> set enumPairs \<and> s \<noteq> fst opts \<and> s \<noteq> snd opts \<and>
                    e = InvalidOption s (fst opts) (snd opts))"
proof -
  from classify_Invalid_mapper [OF assms] obtain m where
    m: "(k, m) \<in> set metrics" and e: "snd (valueMapper m val) = Some e"
    by blast
  from m mapper_shapes have
    "valueMapper m = valueFloat \<or> valueMapper m = valueClear \<or> valueMapper m = energyMapper \<or>
     (\<exists>opts \<in> set enumPairs. valueMapper m = (\<lambda>i. valueOneOf i opts))"
    by fastforce
  then consider (f) "valueMapper m = valueFloat" | (c) "valueMapper m = valueClear"
    | (s) "valueMapper m = energyMapper"
    | (p) opts where "opts \<in> set enumPairs" "valueMapper m = (\<lambda>i. valueOneOf i opts)"
    by blast
  then show ?thesis
  proof cases
    case f
    with e valueFloat_err [of val e] show ?thesis by simp
  next
    case c
    with e valueClear_err [of val e] show ?thesis by simp
  next
    case s
    with e energyMapper_err [of val e] show ?thesis by simp
  next
    case p
    with e valueOneOf_err [of val opts e] show ?thesis by auto
  qed
qed

theorem C7_error_content_witness:
  "classify ''contact'' INil = Invalid (InvalidOption '''' ''open'' ''closed'') \<and>
   IString '''' = (if INil = INil then IString '''' else INil) \<and>
   (\<exists>s opts. IString '''' = IString s \<and> opts \<in> set enumPairs \<and> s \<noteq> fst opts \<and> s \<noteq> snd opts \<and>
       InvalidOption '''' ''open'' ''closed'' = InvalidOption s (fst opts) (snd opts))"
proof -
  have h: "classify ''contact'' INil = Invalid (InvalidOption '''' ''open'' ''closed'')"
    by (simp add: classify_registered [OF reg_contact] mkMetric_def valOpenClosed_def)
  have h2: "IString '''' = (if INil = INil then IString '''' else INil)"
    by simp
  show ?thesis
    using h C7_error_content [OF h h2] by simp
qed

section \<open>A failed device listing\<close>

text \<open>
  Claim C8. When \<^verbatim>\<open>gosmart.GetAllDevices\<close> fails, that is, it answers with an error and
  no devices (the nil slice), \<open>Collect\<close> writes exactly one line to the log, at the error
  level, and returns: nothing is sent on the channel, so the number of samples sent does
  not change either, and the counters \<open>invalidMetric\<close>, \<open>unknownMetric\<close> and
  \<open>droppedMetric\<close> keep their values.
\<close>

theorem C8_listing_failed:
  "Collect endpoint ([], Some err) ch st =
     (ch, st\<lparr>plog := plog st @ [(ErrorLevel, ReadingDevicesFailed endpoint err)]\<rparr>)"
  by (simp add: Collect_def Errorf_def)

theorem C8_listing_failed_witness:
  "Collect ''endpoint'' ([], Some ''unreachable'') []
     \<lparr>invalidMetric = 3, unknownMetric = 2, droppedMetric = 1, plog = []\<rparr> =
   ([], \<lparr>invalidMetric = 3, unknownMetric = 2, droppedMetric = 1,
         plog = [(ErrorLevel, ReadingDevicesFailed ''endpoint'' ''unreachable'')]\<rparr>)"
  using C8_listing_failed [of "''endpoint''" "''unreachable''" "[]"
      "\<lparr>invalidMetric = 3, unknownMetric = 2, droppedMetric = 1, plog = []\<rparr>"]
  by simp

section \<open>Two attributes, one metric\<close>

text \<open>
  Claim C10. \<^verbatim>\<open>carbonMonoxide\<close> and \<^verbatim>\<open>contact\<close> have the same description, named
  contact\_closed, and different mappers. For every string, \<^verbatim>\<open>carbonMonoxide\<close> is
  converted: to 0 for "clear" and to 1 for any other string, "open" and the empty string
  among them. \<^verbatim>\<open>contact\<close> converts "open" to 0 and is invalid for every string other than
  "open" and "closed".
\<close>

theorem C10_shared_metric:
  "map_of metrics ''carbonMonoxide'' =
     Some (mkMetric ''contact_closed'' ''1 if the contact is closed.'' valueClear) \<and>
   map_of metrics ''contact'' =
     Some (mkMetric ''contact_closed'' ''1 if the contact is closed.''
             (\<lambda>i. valueOneOf i valOpenClosed)) \<and>
   classify ''carbonMonoxide'' (IString s) =
     Converted (mkDesc ''contact_closed'' ''1 if the contact is closed.'')
       (if s = ''clear'' then 0 else 1) \<and>
   classify ''carbonMonoxide'' (IString ''open'') =
     Converted (mkDesc ''contact_closed'' ''1 if the contact is closed.'') 1 \<and>
   classify ''carbonMonoxide'' (IString '''') =
     Converted (mkDesc ''contact_closed'' ''1 if the contact is closed.'') 1 \<and>
   classify ''contact'' (IString ''open'') =
     Converted (mkDesc ''contact_closed'' ''1 if the contact is closed.'') 0 \<and>
   (s \<notin> {''open'', ''closed''} \<longrightarrow>
      classify ''contact'' (IString s) = Invalid (InvalidOption s ''open'' ''closed''))"
  by (simp add: classify_registered [OF reg_contact] classify_registered [OF reg_carbonMonoxide]
      reg_contact reg_carbonMonoxide mkMetric_def valOpenClosed_def)

theorem C10_shared_metric_witness:
  "''clear'' \<notin> {''open'', ''closed''} \<and>
   classify ''carbonMonoxide'' (IString ''clear'') =
     Converted (mkDesc ''contact_closed'' ''1 if the contact is closed.'') 0 \<and>
   classify ''contact'' (IString ''clear'') = Invalid (InvalidOption ''clear'' ''open'' ''closed'')"
  using C10_shared_metric [of "''clear''"] by simp

section \<open>Two cycles on one snapshot\<close>

text \<open>
  What the loops of \<open>Collect\<close> add to the channel and to the counters, attribute by
  attribute, device by device.
\<close>

lemma collectAttr_fst: "fst (collectAttr dev kv cs) = fst cs @ samplesOf dev kv"
  by (simp add: collectAttr_def samplesOf_def classify_def classifyIn_def Let_def
      split: option.splits)

lemma collectAttr_dropped:
  "droppedMetric (snd (collectAttr dev kv cs)) =
     droppedMetric (snd cs) + (if classify (fst kv) (snd kv) = Dropped then 1 else 0)"
  by (simp add: collectAttr_def classify_def classifyIn_def Let_def Debugf_def Errorf_def
      split: option.splits)

lemma collectAttr_unknown:
  "unknownMetric (snd (collectAttr dev kv cs)) =
     unknownMetric (snd cs) + (if classify (fst kv) (snd kv) = Unknown then 1 else 0)"
  by (simp add: collectAttr_def classify_def classifyIn_def Let_def Debugf_def Errorf_def
      split: option.splits)

lemma collectAttr_invalid:
  "invalidMetric (snd (collectAttr dev kv cs)) =
     invalidMetric (snd cs) + (if isInvalid (classify (fst kv) (snd kv)) then 1 else 0)"
  by (simp add: collectAttr_def classify_def classifyIn_def Let_def Debugf_def Errorf_def
      split: option.splits)

lemma fold_collectAttr_fst:
  "fst (fold (collectAttr dev) kvs cs) = fst cs @ concat (map (samplesOf dev) kvs)"
  by (induction kvs arbitrary: cs) (simp_all add: collectAttr_fst)

lemma fold_collectAttr_dropped:
  "droppedMetric (snd (fold (collectAttr dev) kvs cs)) =
     droppedMetric (snd cs) + length (filter (\<lambda>kv. classify (fst kv) (snd kv) = Dropped) kvs)"
  by (induction kvs arbitrary: cs) (simp_all add: collectAttr_dropped)

lemma fold_collectAttr_unknown:
  "unknownMetric (snd (fold (collectAttr dev) kvs cs)) =
     unknownMetric (snd cs) + length (filter (\<lambda>kv. classify (fst kv) (snd kv) = Unknown) kvs)"
  by (induction kvs arbitrary: cs) (simp_all add: collectAttr_unknown)

lemma fold_collectAttr_invalid:
  "invalidMetric (snd (fold (collectAttr dev) kvs cs)) =
     invalidMetric (snd cs) + length (filter (\<lambda>kv. isInvalid (classify (fst kv) (snd kv))) kvs)"
  by (induction kvs arbitrary: cs) (simp_all add: collectAttr_invalid)

lemma fold_collectDev_fst:
  "fst (fold collectDev devs cs) =
     fst cs @ concat (map (\<lambda>d. concat (map (samplesOf d) (Attributes d))) devs)"
  by (induction devs arbitrary: cs) (simp_all add: collectDev_def fold_collectAttr_fst)

lemma fold_collectDev_dropped:
  "droppedMetric (snd (fold collectDev devs cs)) = droppedMetric (snd cs) + droppedIn devs"
  by (induction devs arbitrary: cs)
    (simp_all add: collectDev_def fold_collectAttr_dropped droppedIn_def Debugf_def)

lemma fold_collectDev_unknown:
  "unknownMetric (snd (fold collectDev devs cs)) = unknownMetric (snd cs) + unknownIn devs"
  by (induction devs arbitrary: cs)
    (simp_all add: collectDev_def fold_collectAttr_unknown unknownIn_def Debugf_def)

lemma fold_collectDev_invalid:
  "invalidMetric (snd (fold collectDev devs cs)) = invalidMetric (snd cs) + invalidIn devs"
  by (induction devs arbitrary: cs)
    (simp_all add: collectDev_def fold_collectAttr_invalid invalidIn_def Debugf_def)

lemma Collect_samples:
  "fst (Collect endpoint (devs, None) ch st) =
     ch @ concat (map (\<lambda>d. concat (map (samplesOf d) (Attributes d))) devs)"
  by (simp add: Collect_def fold_collectDev_fst)

lemma Collect_counters:
  "droppedMetric (snd (Collect endpoint (devs, None) ch st)) = droppedMetric st + droppedIn devs"
  "unknownMetric (snd (Collect endpoint (devs, None) ch st)) = unknownMetric st + unknownIn devs"
  "invalidMetric (snd (Collect endpoint (devs, None) ch st)) = invalidMetric st + invalidIn devs"
  by (simp_all add: Collect_def fold_collectDev_dropped fold_collectDev_unknown
      fold_collectDev_invalid)

text \<open>Both depend on the attributes of a device as a multiset only.\<close>

lemma mset_concat_map:
  assumes "mset xs = mset ys"
  shows "mset (concat (map f xs)) = mset (concat (map f ys))"
proof -
  have "mset (concat (map f zs)) = sum_mset (image_mset (\<lambda>z. mset (f z)) (mset zs))" for zs
    by (induction zs) simp_all
  with assms show ?thesis by simp
qed

lemma length_filter_mset:
  assumes "mset xs = mset ys"
  shows "length (filter P xs) = length (filter P ys)"
proof -
  have "length (filter P zs) = size (filter_mset P (mset zs))" for zs
    by (metis mset_filter size_mset)
  with assms show ?thesis by simp
qed

lemma samplesOf_cong:
  "ID d = ID d' \<Longrightarrow> DisplayName d = DisplayName d' \<Longrightarrow> samplesOf d = samplesOf d'"
  by (rule ext) (simp add: samplesOf_def split: outcome.splits)

lemma sameSnapshot_samples:
  assumes "sameSnapshot devs devs'"
  shows "mset (concat (map (\<lambda>d. concat (map (samplesOf d) (Attributes d))) devs)) =
         mset (concat (map (\<lambda>d. concat (map (samplesOf d) (Attributes d))) devs'))"
  using assms unfolding sameSnapshot_def
proof (induction rule: list_all2_induct)
  case Nil
  show ?case by simp
next
  case (Cons d ds d' ds')
  from Cons.hyps(1) have f: "samplesOf d = samplesOf d'" by (intro samplesOf_cong) simp_all
  from Cons.hyps(1) have "mset (Attributes d) = mset (Attributes d')" by simp
  then have "mset (concat (map (samplesOf d') (Attributes d))) =
        mset (concat (map (samplesOf d') (Attributes d')))"
    by (rule mset_concat_map)
  with Cons.IH show ?case
    by (simp only: list.map concat.simps mset_append f)
qed

lemma sameSnapshot_counts:
  assumes "sameSnapshot devs devs'"
  shows "droppedIn devs = droppedIn devs'" and "unknownIn devs = unknownIn devs'"
    and "invalidIn devs = invalidIn devs'"
proof -
  have "sum_list (map (\<lambda>d. length (filter P (Attributes d))) devs) =
        sum_list (map (\<lambda>d. length (filter P (Attributes d))) devs')" for P
    using assms unfolding sameSnapshot_def
  proof (induction rule: list_all2_induct)
    case Nil
    show ?case by simp
  next
    case (Cons d ds d' ds')
    from Cons.hyps(1) have "length (filter P (Attributes d)) = length (filter P (Attributes d'))"
      by (intro length_filter_mset) simp
    with Cons.IH show ?case by simp
  qed
  then show "droppedIn devs = droppedIn devs'" and "unknownIn devs = unknownIn devs'"
    and "invalidIn devs = invalidIn devs'"
    by (simp_all add: droppedIn_def unknownIn_def invalidIn_def)
qed

lemma classify_battery_empty: "classify ''battery'' (IString '''') =
     Converted (mkDesc ''battery_percentage'' ''Percentage of battery remaining.'') 0"
  by (simp add: classify_registered [OF reg_battery] mkMetric_def)

lemma classify_color: "classify ''color'' v = Dropped"
proof -
  have "''color'' \<in> fst ` set metricsToDrop" by (simp add: metricsToDrop_def)
  then show ?thesis by (simp add: classify_def classifyIn_def dropIndex_key)
qed

text \<open>
  Claim C9, as stated, fails: the counters do not always grow. For a snapshot whose only
  attribute is converted, here the hub with \<^verbatim>\<open>battery\<close> the empty string, the two cycles
  send the same sample and each of the three counters is 0 after the first cycle and 0
  again after the second.
\<close>

theorem C9_counterexample:
  "fst (Collect ''endpoint''
     ([\<lparr>ID = ''2'', DisplayName = ''Hub'', Attributes = [(''battery'', IString '''')]\<rparr>], None) []
     \<lparr>invalidMetric = 0, unknownMetric = 0, droppedMetric = 0, plog = []\<rparr>) =
     [MustNewConstMetric (mkDesc ''battery_percentage'' ''Percentage of battery remaining.'')
        0 [''2'', ''Hub'']] \<and>
   droppedMetric (snd (Collect ''endpoint''
     ([\<lparr>ID = ''2'', DisplayName = ''Hub'', Attributes = [(''battery'', IString '''')]\<rparr>], None) []
     \<lparr>invalidMetric = 0, unknownMetric = 0, droppedMetric = 0, plog = []\<rparr>)) = 0 \<and>
   unknownMetric (snd (Collect ''endpoint''
     ([\<lparr>ID = ''2'', DisplayName = ''Hub'', Attributes = [(''battery'', IString '''')]\<rparr>], None) []
     \<lparr>invalidMetric = 0, unknownMetric = 0, droppedMetric = 0, plog = []\<rparr>)) = 0 \<and>
   invalidMetric (snd (Collect ''endpoint''
     ([\<lparr>ID = ''2'', DisplayName = ''Hub'', Attributes = [(''battery'', IString '''')]\<rparr>], None) []
     \<lparr>invalidMetric = 0, unknownMetric = 0, droppedMetric = 0, plog = []\<rparr>)) = 0 \<and>
   droppedMetric (snd (Collect ''endpoint''
     ([\<lparr>ID = ''2'', DisplayName = ''Hub'', Attributes = [(''battery'', IString '''')]\<rparr>], None) []
     (snd (Collect ''endpoint''
        ([\<lparr>ID = ''2'', DisplayName = ''Hub'', Attributes = [(''battery'', IString '''')]\<rparr>], None) []
        \<lparr>invalidMetric = 0, unknownMetric = 0, droppedMetric = 0, plog = []\<rparr>)))) = 0 \<and>
   unknownMetric (snd (Collect ''endpoint''
     ([\<lparr>ID = ''2'', DisplayName = ''Hub'', Attributes = [(''battery'', IString '''')]\<rparr>], None) []
     (snd (Collect ''endpoint''
        ([\<lparr>ID = ''2'', DisplayName = ''Hub'', Attributes = [(''battery'', IString '''')]\<rparr>], None) []
        \<lparr>invalidMetric = 0, unknownMetric = 0, droppedMetric = 0, plog = []\<rparr>)))) = 0 \<and>
   invalidMetric (snd (Collect ''endpoint''
     ([\<lparr>ID = ''2'', DisplayName = ''Hub'', Attributes = [(''battery'', IString '''')]\<rparr>], None) []
     (snd (Collect ''endpoint''
        ([\<lparr>ID = ''2'', DisplayName = ''Hub'', Attributes = [(''battery'', IString '''')]\<rparr>], None) []
        \<lparr>invalidMetric = 0, unknownMetric = 0, droppedMetric = 0, plog = []\<rparr>)))) = 0"
  by (simp add: Collect_samples Collect_counters droppedIn_def unknownIn_def invalidIn_def
      samplesOf_def classify_battery_empty)

text \<open>
  Claim C9, amended. Two cycles on one snapshot, the attribute maps iterated in any
  order, send the same samples (as multisets, so also as sets). Each cycle adds to the
  dropped, unknown and invalid counter the number of attributes of the snapshot that are
  dropped, unknown and invalid; so a counter is larger after the second cycle than after
  the first exactly when the snapshot has such an attribute, and keeps its value
  otherwise.
\<close>

theorem C9_two_cycles:
  assumes "sameSnapshot devs devs'"
      and "r1 = Collect endpoint (devs, None) [] st"
      and "r2 = Collect endpoint (devs', None) [] (snd r1)"
  shows "mset (fst r2) = mset (fst r1) \<and> set (fst r2) = set (fst r1) \<and>
         droppedMetric (snd r1) = droppedMetric st + droppedIn devs \<and>
         droppedMetric (snd r2) = droppedMetric (snd r1) + droppedIn devs \<and>
         unknownMetric (snd r1) = unknownMetric st + unknownIn devs \<and>
         unknownMetric (snd r2) = unknownMetric (snd r1) + unknownIn devs \<and>
         invalidMetric (snd r1) = invalidMetric st + invalidIn devs \<and>
         invalidMetric (snd r2) = invalidMetric (snd r1) + invalidIn devs \<and>
         (droppedMetric (snd r1) < droppedMetric (snd r2) \<longleftrightarrow> 0 < droppedIn devs) \<and>
         (unknownMetric (snd r1) < unknownMetric (snd r2) \<longleftrightarrow> 0 < unknownIn devs) \<and>
         (invalidMetric (snd r1) < invalidMetric (snd r2) \<longleftrightarrow> 0 < invalidIn devs)"
proof -
  have m: "mset (fst r2) = mset (fst r1)"
    unfolding assms(2,3) Collect_samples using sameSnapshot_samples [OF assms(1)] by simp
  from m have "set (fst r2) = set (fst r1)" by (rule mset_eq_setD)
  with m show ?thesis
    unfolding assms(2,3) by (simp add: Collect_counters sameSnapshot_counts [OF assms(1), symmetric])
qed

theorem C9_two_cycles_witness:
  "sameSnapshot
     [\<lparr>ID = ''1'', DisplayName = ''Front Door'',
        Attributes = [(''battery'', IString ''''), (''color'', IString ''red'')]\<rparr>]
     [\<lparr>ID = ''1'', DisplayName = ''Front Door'',
        Attributes = [(''color'', IString ''red''), (''battery'', IString '''')]\<rparr>] \<and>
   droppedIn [\<lparr>ID = ''1'', DisplayName = ''Front Door'',
        Attributes = [(''battery'', IString ''''), (''color'', IString ''red'')]\<rparr>] = 1 \<and>
   droppedMetric (snd (Collect ''endpoint''
     ([\<lparr>ID = ''1'', DisplayName = ''Front Door'',
         Attributes = [(''color'', IString ''red''), (''battery'', IString '''')]\<rparr>], None) []
     (snd (Collect ''endpoint''
        ([\<lparr>ID = ''1'', DisplayName = ''Front Door'',
            Attributes = [(''battery'', IString ''''), (''color'', IString ''red'')]\<rparr>], None) []
        \<lparr>invalidMetric = 0, unknownMetric = 0, droppedMetric = 0, plog = []\<rparr>)))) = 2"
proof -
  have h: "sameSnapshot
     [\<lparr>ID = ''1'', DisplayName = ''Front Door'',
        Attributes = [(''battery'', IString ''''), (''color'', IString ''red'')]\<rparr>]
     [\<lparr>ID = ''1'', DisplayName = ''Front Door'',
        Attributes = [(''color'', IString ''red''), (''battery'', IString '''')]\<rparr>]"
    by (simp add: sameSnapshot_def)
  have d: "droppedIn [\<lparr>ID = ''1'', DisplayName = ''Front Door'',
        Attributes = [(''battery'', IString ''''), (''color'', IString ''red'')]\<rparr>] = 1"
    by (simp add: droppedIn_def classify_battery_empty classify_color)
  show ?thesis
    using h d C9_two_cycles [OF h refl refl, of "''endpoint''"
        "\<lparr>invalidMetric = 0, unknownMetric = 0, droppedMetric = 0, plog = []\<rparr>"]
    by simp
qed

end
